theory Spec2Isabelle
  imports Main
begin

section \<open>The profiles page of xtream-player (src/app/profiles/page.tsx)\<close>

text \<open>
  The page is a React component: eight state cells, four asynchronous handlers
  (\<open>fetchProfiles\<close>, \<open>handleCreateProfile\<close>, \<open>handleSetActiveProfile\<close>,
  \<open>deleteProfile\<close>) and the JSX it returns. The embedding passes the component state
  explicitly. A handler takes the outcome of every call it awaits as an argument
  (a rejected promise is \<open>Inl\<close>, a resolved one \<open>Inr\<close>) and returns the state after
  all of its setters have run together with the list of the effects it performed on
  the outside world, in program order.
\<close>

subsection \<open>JavaScript values\<close>

text \<open>
  \<open>response.json()\<close> is typed \<open>any\<close>, and the component stores what it gets without
  a check, so the state holds JavaScript values and not typed profiles. Numbers are
  restricted to integers (the identifiers of the schema).
\<close>

datatype jsval =
    JUndefined
  | JNull
  | JBool bool
  | JNum int
  | JStr string
  | JArr "jsval list"
  | JObj "(string \<times> jsval) list"

datatype exn = TypeError | SyntaxError | Rejected

text \<open>The test of \<open>if (v)\<close>, \<open>v && e\<close>, \<open>v || e\<close> and \<open>!v\<close>.\<close>

fun truthy :: "jsval \<Rightarrow> bool" where
  "truthy JUndefined = False"
| "truthy JNull = False"
| "truthy (JBool b) = b"
| "truthy (JNum n) = (n \<noteq> 0)"
| "truthy (JStr s) = (s \<noteq> [])"
| "truthy (JArr xs) = True"
| "truthy (JObj kvs) = True"

fun nullish :: "jsval \<Rightarrow> bool" where
  "nullish JUndefined = True"
| "nullish JNull = True"
| "nullish v = False"

text \<open>
  \<open>v.k\<close> for the property names this file reads (\<open>id\<close>, \<open>name\<close>, \<open>isActive\<close>,
  \<open>iptvUrl\<close>, \<open>activeProfileId\<close>, \<open>token\<close>, \<open>message\<close>, \<open>error\<close>): none of them is
  a property of a prototype, so on anything but an object that has the key the
  result is \<open>undefined\<close>. Reading a property of \<open>null\<close> or \<open>undefined\<close> throws.
\<close>

fun get :: "jsval \<Rightarrow> string \<Rightarrow> jsval" where
  "get (JObj kvs) k = (case map_of kvs k of Some v \<Rightarrow> v | None \<Rightarrow> JUndefined)"
| "get v k = JUndefined"

definition getProp :: "jsval \<Rightarrow> string \<Rightarrow> exn + jsval" where
  "getProp v k = (if nullish v then Inl TypeError else Inr (get v k))"

text \<open>\<open>a || b\<close>.\<close>

definition or_else :: "jsval \<Rightarrow> jsval \<Rightarrow> jsval" where
  "or_else a b = (if truthy a then a else b)"

text \<open>
  \<open>a === b\<close>. On primitive values it is equality of the values. On arrays and
  objects JavaScript compares references, which the model does not track: there it
  is equality of the contents.
\<close>

definition strict_eq :: "jsval \<Rightarrow> jsval \<Rightarrow> bool" where
  "strict_eq a b = (a = b)"

subsection \<open>Requests, responses and effects\<close>

datatype meth = GET | POST | DELETE

text \<open>The three URLs: \<open>/api/profiles\<close>, \<open>/api/profiles/setActive\<close>, \<open>/api/profiles/${profileId}\<close>.\<close>

datatype endpoint = ApiProfiles | ApiProfilesSetActive | ApiProfilesId jsval

text \<open>
  A response is its status and the value \<open>response.json()\<close> resolves to
  (\<open>None\<close> when the body is not JSON and the promise rejects).
\<close>

record response =
  status :: nat
  body :: "jsval option"

definition ok :: "response \<Rightarrow> bool" where
  "ok r = (200 \<le> status r \<and> status r \<le> 299)"

text \<open>
  What a handler does to the outside world. \<open>Fetch\<close> carries the method, the URL,
  the headers and the value given to \<open>JSON.stringify\<close> for the body;
  \<open>LocalStorageSetItem k v\<close> stores \<open>JSON.stringify(v)\<close> under \<open>k\<close>.
\<close>

datatype effect =
    PreventDefault
  | Verify string string string
  | Fetch meth endpoint "(string \<times> string) list" "jsval option"
  | ToastError jsval
  | ToastSuccess string
  | ConsoleError string exn
  | RouterPush string
  | RouterRefresh
  | SetClientSession jsval
  | LocalStorageSetItem string jsval

subsection \<open>Component state\<close>

record Session =
  session_id :: int
  email :: string

record ProfileFormData =
  name :: string
  iptvUrl :: string
  iptvUsername :: string
  iptvPassword :: string

record state =
  profiles :: jsval
  loading :: bool
  activeProfileId :: jsval
  isDialogOpen :: bool
  user :: "Session option"
  formData :: ProfileFormData
  error :: jsval
  isLoading :: bool

definition emptyForm :: ProfileFormData where
  "emptyForm = \<lparr>name = [], iptvUrl = [], iptvUsername = [], iptvPassword = []\<rparr>"

text \<open>The arguments of the \<open>useState\<close> calls.\<close>

definition initial_state :: state where
  "initial_state =
     \<lparr>profiles = JArr [], loading = True, activeProfileId = JNull, isDialogOpen = False,
      user = None, formData = emptyForm, error = JNull, isLoading = False\<rparr>"

text \<open>The object \<open>JSON.stringify(formData)\<close> serialises.\<close>

definition formJson :: "ProfileFormData \<Rightarrow> jsval" where
  "formJson fd =
     JObj [(''name'', JStr (name fd)), (''iptvUrl'', JStr (iptvUrl fd)),
           (''iptvUsername'', JStr (iptvUsername fd)), (''iptvPassword'', JStr (iptvPassword fd))]"

definition jsonHeaders :: "(string \<times> string) list" where
  "jsonHeaders = [(''Content-Type'', ''application/json'')]"

subsection \<open>fetchProfiles\<close>

text \<open>
  \<open>token\<close> is what \<open>localStorage.getItem('token')\<close> returns; the template literal
  prints \<open>null\<close> as the text null. Only status 401 is tested: every other response
  goes on to \<open>response.json()\<close>. \<open>setProfiles(data)\<close> stores the whole body, and it
  has run when \<open>data.activeProfileId\<close> throws on a \<open>null\<close> body. The \<open>finally\<close>
  block runs on every path.
\<close>

definition bearer :: "string option \<Rightarrow> string" where
  "bearer token = ''Bearer '' @ (case token of None \<Rightarrow> ''null'' | Some t \<Rightarrow> t)"

definition fetchProfiles :: "string option \<Rightarrow> exn + response \<Rightarrow> state \<Rightarrow> state \<times> effect list" where
  "fetchProfiles token fetched s =
     (let req = Fetch GET ApiProfiles [(''Authorization'', bearer token)] None;
          caught = (\<lambda>e. ConsoleError ''Error fetching profiles:'' e)
      in case fetched of
           Inl e \<Rightarrow> (s\<lparr>loading := False\<rparr>, [req, caught e])
         | Inr r \<Rightarrow>
             if status r = 401 then (s\<lparr>loading := False\<rparr>, [req, RouterPush ''/login''])
             else (case body r of
                     None \<Rightarrow> (s\<lparr>loading := False\<rparr>, [req, caught SyntaxError])
                   | Some data \<Rightarrow>
                       (case getProp data ''activeProfileId'' of
                          Inl e \<Rightarrow> (s\<lparr>profiles := data, loading := False\<rparr>, [req, caught e])
                        | Inr a \<Rightarrow>
                            (s\<lparr>profiles := data, activeProfileId := a, loading := False\<rparr>, [req]))))"

subsection \<open>The effect on mount\<close>

text \<open>
  \<open>session\<close> is what \<open>getClientSession()\<close> resolves to (its \<open>id\<close> is \<open>session_id\<close>
  here); the call is not guarded, and a rejection of it is not modelled.
\<close>

definition initializeUser ::
  "Session option \<Rightarrow> string option \<Rightarrow> exn + response \<Rightarrow> state \<Rightarrow> state \<times> effect list" where
  "initializeUser session token fetched s =
     (case session of
        Some u \<Rightarrow> fetchProfiles token fetched (s\<lparr>user := Some u\<rparr>)
      | None \<Rightarrow> (s, [RouterPush ''/login'']))"

subsection \<open>handleInputChange\<close>

text \<open>
  \<open>setFormData(prev => ({...prev, [name]: value}))\<close> for the \<open>name\<close> attributes of the
  four inputs of the form.
\<close>

definition handleInputChange :: "string \<Rightarrow> string \<Rightarrow> state \<Rightarrow> state" where
  "handleInputChange field val s =
     (if field = ''name'' then s\<lparr>formData := (formData s)\<lparr>name := val\<rparr>\<rparr>
      else if field = ''iptvUrl'' then s\<lparr>formData := (formData s)\<lparr>iptvUrl := val\<rparr>\<rparr>
      else if field = ''iptvUsername'' then s\<lparr>formData := (formData s)\<lparr>iptvUsername := val\<rparr>\<rparr>
      else if field = ''iptvPassword'' then s\<lparr>formData := (formData s)\<lparr>iptvPassword := val\<rparr>\<rparr>
      else s)"

subsection \<open>handleCreateProfile\<close>

text \<open>
  The state that is rendered while the handler waits for its first \<open>await\<close>:
  \<open>setError(null)\<close> and \<open>setIsLoading(true)\<close> have run.
\<close>

definition handleCreateProfile_pending :: "state \<Rightarrow> state" where
  "handleCreateProfile_pending s = s\<lparr>error := JNull, isLoading := True\<rparr>"

definition createCaught :: "exn \<Rightarrow> effect list" where
  "createCaught e =
     [ConsoleError ''Error creating profile:'' e, ToastError (JStr ''Failed to create profile'')]"

definition invalidCredentials :: string where
  "invalidCredentials = ''Invalid IPTV credentials. Please check your URL, username, and password.''"

text \<open>
  \<open>verified\<close> is the outcome of \<open>verifyIPTVCredentials\<close>, \<open>posted\<close> that of the POST,
  \<open>token\<close> and \<open>fetched\<close> are for the \<open>fetchProfiles\<close> of the success branch. The
  form data read is that of the render the handler belongs to.
\<close>

definition handleCreateProfile ::
  "exn + bool \<Rightarrow> exn + response \<Rightarrow> string option \<Rightarrow> exn + response \<Rightarrow> state
     \<Rightarrow> state \<times> effect list" where
  "handleCreateProfile verified posted token fetched s =
     (let s1 = handleCreateProfile_pending s;
          fd = formData s;
          pre = [PreventDefault, Verify (iptvUrl fd) (iptvUsername fd) (iptvPassword fd)];
          req = Fetch POST ApiProfiles jsonHeaders (Some (formJson fd))
      in case verified of
           Inl e \<Rightarrow> (s1\<lparr>isLoading := False\<rparr>, pre @ createCaught e)
         | Inr isValid \<Rightarrow>
             if \<not> isValid then
               (s1\<lparr>isLoading := False\<rparr>, pre @ [ToastError (JStr invalidCredentials)])
             else (case posted of
                     Inl e \<Rightarrow> (s1\<lparr>isLoading := False\<rparr>, pre @ [req] @ createCaught e)
                   | Inr r \<Rightarrow>
                       if ok r then
                         (let s2 = s1\<lparr>formData := emptyForm, isDialogOpen := False\<rparr>;
                              (s3, es) = fetchProfiles token fetched s2
                          in (s3\<lparr>isLoading := False\<rparr>,
                              pre @ [req, ToastSuccess ''Profile created successfully''] @ es
                                @ [RouterRefresh]))
                       else (case body r of
                               None \<Rightarrow>
                                 (s1\<lparr>isLoading := False\<rparr>, pre @ [req] @ createCaught SyntaxError)
                             | Some data \<Rightarrow>
                                 (case getProp data ''message'' of
                                    Inl e \<Rightarrow> (s1\<lparr>isLoading := False\<rparr>, pre @ [req] @ createCaught e)
                                  | Inr m \<Rightarrow>
                                      (s1\<lparr>isLoading := False\<rparr>,
                                       pre @ [req, ToastError (or_else m (JStr ''Failed to create profile''))])))))"

subsection \<open>handleSetActiveProfile\<close>

text \<open>\<open>profiles.find(p => p.id === profileId)\<close>; \<open>p.id\<close> throws on a nullish element.\<close>

fun find_profile :: "jsval list \<Rightarrow> jsval \<Rightarrow> exn + jsval" where
  "find_profile [] profileId = Inr JUndefined"
| "find_profile (p # ps) profileId =
     (case getProp p ''id'' of
        Inl e \<Rightarrow> Inl e
      | Inr i \<Rightarrow> if strict_eq i profileId then Inr p else find_profile ps profileId)"

text \<open>Only an array has \<open>find\<close>; on any other value the call throws.\<close>

definition profiles_find :: "jsval \<Rightarrow> jsval \<Rightarrow> exn + jsval" where
  "profiles_find v profileId =
     (case v of JArr ps \<Rightarrow> find_profile ps profileId | _ \<Rightarrow> Inl TypeError)"

definition handleSetActiveProfile_pending :: "state \<Rightarrow> state" where
  "handleSetActiveProfile_pending s = s\<lparr>isLoading := True\<rparr>"

definition setActiveCaught :: "exn \<Rightarrow> effect list" where
  "setActiveCaught e =
     [ConsoleError ''Error setting active profile:'' e,
      ToastError (JStr ''Failed to set active profile'')]"

text \<open>
  A response that is not \<open>ok\<close> falls through the \<open>if\<close>, which has no \<open>else\<close>. In the
  success branch the session and the active identifier are set before \<open>find\<close> runs,
  so they stay set when \<open>find\<close> throws.
\<close>

definition handleSetActiveProfile :: "jsval \<Rightarrow> exn + response \<Rightarrow> state \<Rightarrow> state \<times> effect list" where
  "handleSetActiveProfile profileId posted s =
     (let s1 = handleSetActiveProfile_pending s;
          req = Fetch POST ApiProfilesSetActive jsonHeaders (Some (JObj [(''profileId'', profileId)]))
      in case posted of
           Inl e \<Rightarrow> (s1\<lparr>isLoading := False\<rparr>, [req] @ setActiveCaught e)
         | Inr r \<Rightarrow>
             if \<not> ok r then (s1\<lparr>isLoading := False\<rparr>, [req])
             else (case body r of
                     None \<Rightarrow> (s1\<lparr>isLoading := False\<rparr>, [req] @ setActiveCaught SyntaxError)
                   | Some data \<Rightarrow>
                       (case getProp data ''token'' of
                          Inl e \<Rightarrow> (s1\<lparr>isLoading := False\<rparr>, [req] @ setActiveCaught e)
                        | Inr tok \<Rightarrow>
                            (let session = (if truthy tok then [SetClientSession tok] else []);
                                 s2 = s1\<lparr>activeProfileId := profileId\<rparr>
                             in case profiles_find (profiles s) profileId of
                                  Inl e \<Rightarrow>
                                    (s2\<lparr>isLoading := False\<rparr>, [req] @ session @ setActiveCaught e)
                                | Inr activeProfile \<Rightarrow>
                                    (s2\<lparr>isLoading := False\<rparr>,
                                     [req] @ session
                                       @ (if truthy activeProfile
                                          then [LocalStorageSetItem ''activeProfile'' activeProfile]
                                          else [])
                                       @ [ToastSuccess ''Active profile updated successfully'',
                                          RouterPush ''/'', RouterRefresh])))))"

subsection \<open>deleteProfile\<close>

text \<open>No setter runs before the request: the state rendered while it is outstanding is the old one.\<close>

definition deleteProfile_pending :: "state \<Rightarrow> state" where
  "deleteProfile_pending s = s"

definition deleteCaught :: "exn \<Rightarrow> state \<Rightarrow> state \<times> effect list" where
  "deleteCaught e s =
     (s\<lparr>error := JStr ''Failed to delete profile''\<rparr>, [ConsoleError ''Error deleting profile:'' e])"

definition deleteProfile ::
  "jsval \<Rightarrow> exn + response \<Rightarrow> string option \<Rightarrow> exn + response \<Rightarrow> state \<Rightarrow> state \<times> effect list" where
  "deleteProfile profileId deleted token fetched s =
     (let s0 = deleteProfile_pending s;
          req = Fetch DELETE (ApiProfilesId profileId) [] None
      in case deleted of
           Inl e \<Rightarrow> (let (s', es) = deleteCaught e s0 in (s', [req] @ es))
         | Inr r \<Rightarrow>
             if \<not> ok r then
               (case body r of
                  None \<Rightarrow> (let (s', es) = deleteCaught SyntaxError s0 in (s', [req] @ es))
                | Some data \<Rightarrow>
                    (case getProp data ''error'' of
                       Inl e \<Rightarrow> (let (s', es) = deleteCaught e s0 in (s', [req] @ es))
                     | Inr m \<Rightarrow>
                         (s0\<lparr>error := or_else m (JStr ''Failed to delete profile'')\<rparr>, [req])))
             else (let (s', es) = fetchProfiles token fetched s0 in (s', [req] @ es)))"

subsection \<open>The rendered page\<close>

text \<open>
  What a click does, and the props a \<open>Button\<close> is given. A button is disabled when
  it is given a truthy \<open>disabled\<close> prop.
\<close>

datatype action = HandleSetActiveProfile jsval | DeleteProfile jsval | HandleCreateProfile

datatype jsxprop = PText string | PValue jsval | PHandler action

record button =
  props :: "(string \<times> jsxprop) list"
  label :: string

definition disabled :: "button \<Rightarrow> bool" where
  "disabled b =
     (case map_of (props b) ''disabled'' of
        Some (PValue v) \<Rightarrow> truthy v
      | Some (PText t) \<Rightarrow> t \<noteq> []
      | Some (PHandler a) \<Rightarrow> True
      | None \<Rightarrow> False)"

definition onClick :: "button \<Rightarrow> action option" where
  "onClick b = (case map_of (props b) ''onClick'' of Some (PHandler a) \<Rightarrow> Some a | _ \<Rightarrow> None)"

record card =
  card_key :: jsval
  card_className :: string
  card_title :: jsval
  card_check :: bool
  card_url :: jsval
  card_activate :: button
  card_delete :: "button option"

text \<open>The body of \<open>profiles.map\<close>: one card. \<open>profile.id\<close> throws on a nullish element.\<close>

definition render_card :: "jsval \<Rightarrow> exn + card" where
  "render_card profile =
     (if nullish profile then Inl TypeError
      else Inr
        \<lparr>card_key = get profile ''id'',
         card_className =
           ''p-4 rounded-lg border '' @
             (if truthy (get profile ''isActive'') then ''border-green-500'' else ''border-gray-200''),
         card_title = get profile ''name'',
         card_check = truthy (get profile ''isActive''),
         card_url = get profile ''iptvUrl'',
         card_activate =
           \<lparr>props =
              [(''onClick'', PHandler (HandleSetActiveProfile (get profile ''id''))),
               (''variant'',
                PText (if truthy (get profile ''isActive'') then ''secondary'' else ''outline'')),
               (''className'', PText ''flex-1'')],
            label = (if truthy (get profile ''isActive'') then ''Active'' else ''Set Active'')\<rparr>,
         card_delete =
           (if \<not> truthy (get profile ''isActive'') then
              Some \<lparr>props =
                      [(''onClick'', PHandler (DeleteProfile (get profile ''id''))),
                       (''variant'', PText ''destructive''),
                       (''size'', PText ''icon'')],
                    label = ''Trash2''\<rparr>
            else None)\<rparr>)"

fun render_cards :: "jsval list \<Rightarrow> exn + card list" where
  "render_cards [] = Inr []"
| "render_cards (p # ps) =
     (case render_card p of
        Inl e \<Rightarrow> Inl e
      | Inr c \<Rightarrow> (case render_cards ps of Inl e \<Rightarrow> Inl e | Inr cs \<Rightarrow> Inr (c # cs)))"

text \<open>
  \<open>profiles && profiles.map(...)\<close>: nothing for a falsy value, the cards for an array;
  any other value has no \<open>map\<close> and the call throws.
\<close>

definition render_grid :: "jsval \<Rightarrow> exn + card list" where
  "render_grid v =
     (if \<not> truthy v then Inr []
      else (case v of JArr ps \<Rightarrow> render_cards ps | _ \<Rightarrow> Inl TypeError))"

record page =
  dialog_open :: bool
  dialog_trigger :: button
  form_userId :: jsval
  form_values :: ProfileFormData
  form_onSubmit :: action
  form_submit :: button
  cards :: "card list"

datatype view = Spinner | Page page

text \<open>
  What the component function \<open>Profiles\<close> returns for a state: the spinner while
  \<open>loading\<close>, the page otherwise. No element reads \<open>activeProfileId\<close>, \<open>error\<close> or
  \<open>isLoading\<close>.
\<close>

definition Profiles :: "state \<Rightarrow> exn + view" where
  "Profiles s =
     (if loading s then Inr Spinner
      else (case render_grid (profiles s) of
              Inl e \<Rightarrow> Inl e
            | Inr cs \<Rightarrow>
                Inr (Page
                  \<lparr>dialog_open = isDialogOpen s,
                   dialog_trigger = \<lparr>props = [], label = ''Add Profile''\<rparr>,
                   form_userId = (case user s of None \<Rightarrow> JUndefined | Some u \<Rightarrow> JNum (session_id u)),
                   form_values = formData s,
                   form_onSubmit = HandleCreateProfile,
                   form_submit =
                     \<lparr>props = [(''type'', PText ''submit''), (''className'', PText ''w-full'')],
                      label = ''Add Profile''\<rparr>,
                   cards = cs\<rparr>)))"

text \<open>Every click handler a view offers, in document order.\<close>

definition card_actions :: "card \<Rightarrow> action list" where
  "card_actions c =
     (case onClick (card_activate c) of Some a \<Rightarrow> [a] | None \<Rightarrow> []) @
     (case card_delete c of
        None \<Rightarrow> []
      | Some b \<Rightarrow> (case onClick b of Some a \<Rightarrow> [a] | None \<Rightarrow> []))"

subsection \<open>Reading a rendered view\<close>

definition page_cards :: "exn + view \<Rightarrow> card list" where
  "page_cards v = (case v of Inr (Page pg) \<Rightarrow> cards pg | _ \<Rightarrow> [])"

text \<open>The elements \<open>profiles.map\<close> walks: those of an array, none for a value that is not one.\<close>

definition profile_list :: "jsval \<Rightarrow> jsval list" where
  "profile_list v = (case v of JArr ps \<Rightarrow> ps | _ \<Rightarrow> [])"

subsection \<open>Example data\<close>

text \<open>The fetch result of the scenario: profile A is active, profile B is not.\<close>

definition profileA :: jsval where
  "profileA = JObj [(''id'', JNum 1), (''name'', JStr ''A''), (''isActive'', JBool True)]"

definition profileB :: jsval where
  "profileB = JObj [(''id'', JNum 2), (''name'', JStr ''B''), (''isActive'', JBool False)]"

definition scenario_state :: state where
  "scenario_state =
     \<lparr>profiles = JArr [profileA, profileB], loading = False, activeProfileId = JNum 1,
      isDialogOpen = False, user = Some \<lparr>session_id = 7, email = ''u@example.org''\<rparr>,
      formData = emptyForm, error = JNull, isLoading = False\<rparr>"

text \<open>The creation dialog is open and filled in, after a deletion has failed.\<close>

definition dialog_state :: state where
  "dialog_state =
     scenario_state
       \<lparr>isDialogOpen := True,
        formData := \<lparr>name = ''C'', iptvUrl = ''http://tv'', iptvUsername = ''u'', iptvPassword = ''bad''\<rparr>,
        error := JStr ''Failed to delete profile''\<rparr>"

section \<open>Properties\<close>

subsection \<open>Profile creation\<close>

lemma handleCreateProfile_prefix:
  "\<exists>rest. snd (handleCreateProfile verified posted token fetched s) =
     PreventDefault # Verify (iptvUrl (formData s)) (iptvUsername (formData s)) (iptvPassword (formData s)) # rest"
  by (auto simp: handleCreateProfile_def Let_def createCaught_def
      split: sum.splits option.splits if_splits prod.splits)

text \<open>
  C1, as stated, says that no state write occurs when the verification resolves
  false. The handler has called \<open>setError(null)\<close> before it verifies: after a failed
  deletion has left a message in \<open>error\<close>, a submission with wrong credentials
  clears it.
\<close>

theorem handleCreateProfile_invalid_clears_error_counterexample:
  "error dialog_state = JStr ''Failed to delete profile'' \<and>
   error (fst (handleCreateProfile (Inr False) (Inl Rejected) None (Inl Rejected) dialog_state)) = JNull"
  by (simp add: handleCreateProfile_def handleCreateProfile_pending_def dialog_state_def
      scenario_state_def Let_def)

text \<open>
  C1, amended. When \<open>verifyIPTVCredentials\<close> resolves false, \<open>handleCreateProfile\<close>
  issues no request at all (so no POST to \<open>/api/profiles\<close>), shows the error toast and
  leaves the dialog as it was; the state afterwards is the state before with \<open>error\<close>
  cleared and \<open>isLoading\<close> reset, nothing else is written. And in every execution a
  POST to \<open>/api/profiles\<close> comes after the verification call.
\<close>

theorem handleCreateProfile_verify_before_persist:
  "(handleCreateProfile (Inr False) posted token fetched s = (s', es) \<longrightarrow>
      (\<forall>m u h b. Fetch m u h b \<notin> set es) \<and>
      ToastError (JStr invalidCredentials) \<in> set es \<and>
      isDialogOpen s' = isDialogOpen s \<and>
      s' = s\<lparr>error := JNull, isLoading := False\<rparr>) \<and>
   (snd (handleCreateProfile verified posted token fetched s) = pre @ Fetch POST ApiProfiles h b # post \<longrightarrow>
      (\<exists>u n p. Verify u n p \<in> set pre))"
proof (intro conjI impI)
  assume a: "handleCreateProfile (Inr False) posted token fetched s = (s', es)"
  then have es: "es = [PreventDefault,
      Verify (iptvUrl (formData s)) (iptvUsername (formData s)) (iptvPassword (formData s)),
      ToastError (JStr invalidCredentials)]"
    and s': "s' = s\<lparr>error := JNull, isLoading := False\<rparr>"
    by (auto simp: handleCreateProfile_def handleCreateProfile_pending_def Let_def)
  show "\<forall>m u h b. Fetch m u h b \<notin> set es" using es by simp
  show "ToastError (JStr invalidCredentials) \<in> set es" using es by simp
  show "isDialogOpen s' = isDialogOpen s" using s' by simp
  show "s' = s\<lparr>error := JNull, isLoading := False\<rparr>" by (rule s')
next
  assume a: "snd (handleCreateProfile verified posted token fetched s) = pre @ Fetch POST ApiProfiles h b # post"
  obtain rest where r: "snd (handleCreateProfile verified posted token fetched s) =
     PreventDefault # Verify (iptvUrl (formData s)) (iptvUsername (formData s)) (iptvPassword (formData s)) # rest"
    using handleCreateProfile_prefix by blast
  from a r have eq: "pre @ Fetch POST ApiProfiles h b # post =
     PreventDefault # Verify (iptvUrl (formData s)) (iptvUsername (formData s)) (iptvPassword (formData s)) # rest"
    by simp
  show "\<exists>u n p. Verify u n p \<in> set pre"
  proof (cases pre)
    case Nil
    with eq show ?thesis by simp
  next
    case (Cons x xs)
    note c1 = this
    show ?thesis
    proof (cases xs)
      case Nil
      with eq c1 show ?thesis by simp
    next
      case (Cons y ys)
      with eq c1 have "y = Verify (iptvUrl (formData s)) (iptvUsername (formData s)) (iptvPassword (formData s))"
        by simp
      with c1 Cons show ?thesis by auto
    qed
  qed
qed

text \<open>
  The open dialog with a wrong password: the toast appears and the dialog stays open;
  with valid credentials the POST is the third effect, after the verification.
\<close>

theorem handleCreateProfile_verify_before_persist_witness:
  "handleCreateProfile (Inr False) (Inr \<lparr>status = 500, body = None\<rparr>) None (Inl Rejected) dialog_state =
     (dialog_state\<lparr>error := JNull, isLoading := False\<rparr>,
      [PreventDefault, Verify ''http://tv'' ''u'' ''bad'', ToastError (JStr invalidCredentials)]) \<and>
   isDialogOpen (dialog_state\<lparr>error := JNull, isLoading := False\<rparr>) \<and>
   snd (handleCreateProfile (Inr True) (Inr \<lparr>status = 500, body = None\<rparr>) None (Inl Rejected) dialog_state) =
     [PreventDefault, Verify ''http://tv'' ''u'' ''bad''] @
       Fetch POST ApiProfiles jsonHeaders (Some (formJson (formData dialog_state))) #
       createCaught SyntaxError \<and>
   (\<exists>u n p. Verify u n p \<in> set [PreventDefault, Verify ''http://tv'' ''u'' ''bad''])"
proof -
  have h1: "handleCreateProfile (Inr False) (Inr \<lparr>status = 500, body = None\<rparr>) None (Inl Rejected) dialog_state =
     (dialog_state\<lparr>error := JNull, isLoading := False\<rparr>,
      [PreventDefault, Verify ''http://tv'' ''u'' ''bad'', ToastError (JStr invalidCredentials)])"
    by (simp add: handleCreateProfile_def handleCreateProfile_pending_def dialog_state_def
        scenario_state_def Let_def)
  have h2: "snd (handleCreateProfile (Inr True) (Inr \<lparr>status = 500, body = None\<rparr>) None (Inl Rejected) dialog_state) =
     [PreventDefault, Verify ''http://tv'' ''u'' ''bad''] @
       Fetch POST ApiProfiles jsonHeaders (Some (formJson (formData dialog_state))) #
       createCaught SyntaxError"
    by (simp add: handleCreateProfile_def handleCreateProfile_pending_def dialog_state_def
        scenario_state_def Let_def ok_def)
  have h3: "isDialogOpen (dialog_state\<lparr>error := JNull, isLoading := False\<rparr>)"
    by (simp add: dialog_state_def)
  from handleCreateProfile_verify_before_persist
    [of "Inr \<lparr>status = 500, body = None\<rparr>" None "Inl Rejected" dialog_state
        "dialog_state\<lparr>error := JNull, isLoading := False\<rparr>"
        "[PreventDefault, Verify ''http://tv'' ''u'' ''bad'', ToastError (JStr invalidCredentials)]"
        "Inr True" "[PreventDefault, Verify ''http://tv'' ''u'' ''bad'']"
        jsonHeaders "Some (formJson (formData dialog_state))" "createCaught SyntaxError"]
    h1 h2 h3
  show ?thesis by blast
qed

subsection \<open>The profile list fetcher\<close>

text \<open>
  C2 says that a 200 response with the body \<open>{ profiles, activeProfileId }\<close> replaces
  the in-memory collection with the returned list. \<open>fetchProfiles\<close> calls
  \<open>setProfiles(data)\<close> on the whole body: the identifier is replaced as claimed, but
  the collection becomes the object, not its \<open>profiles\<close> list, and the next render
  throws on \<open>profiles.map\<close>.
\<close>

theorem fetchProfiles_object_body_stored_whole:
  "fetchProfiles (Some ''t'')
     (Inr \<lparr>status = 200,
            body = Some (JObj [(''profiles'', JArr [profileA, profileB]), (''activeProfileId'', JNum 1)])\<rparr>)
     initial_state =
     (initial_state
        \<lparr>profiles := JObj [(''profiles'', JArr [profileA, profileB]), (''activeProfileId'', JNum 1)],
         activeProfileId := JNum 1, loading := False\<rparr>,
      [Fetch GET ApiProfiles [(''Authorization'', ''Bearer t'')] None]) \<and>
   profiles (fst (fetchProfiles (Some ''t'')
     (Inr \<lparr>status = 200,
            body = Some (JObj [(''profiles'', JArr [profileA, profileB]), (''activeProfileId'', JNum 1)])\<rparr>)
     initial_state)) \<noteq> JArr [profileA, profileB] \<and>
   Profiles (fst (fetchProfiles (Some ''t'')
     (Inr \<lparr>status = 200,
            body = Some (JObj [(''profiles'', JArr [profileA, profileB]), (''activeProfileId'', JNum 1)])\<rparr>)
     initial_state)) = Inl TypeError"
  by (simp add: fetchProfiles_def getProp_def bearer_def Profiles_def render_grid_def initial_state_def
      Let_def)

text \<open>
  C3 says that a response whose status is neither 2xx nor 401 leaves the collection
  and the active identifier as they were and is logged. \<open>fetchProfiles\<close> tests
  \<open>response.status === 401\<close> only, never \<open>response.ok\<close>: a 500 response with a JSON
  body overwrites both, and nothing is logged.
\<close>

theorem fetchProfiles_error_status_overwrites:
  "fetchProfiles (Some ''t'')
     (Inr \<lparr>status = 500, body = Some (JObj [(''error'', JStr ''Internal Server Error'')])\<rparr>)
     scenario_state =
     (scenario_state
        \<lparr>profiles := JObj [(''error'', JStr ''Internal Server Error'')],
         activeProfileId := JUndefined\<rparr>,
      [Fetch GET ApiProfiles [(''Authorization'', ''Bearer t'')] None]) \<and>
   profiles scenario_state = JArr [profileA, profileB] \<and>
   activeProfileId scenario_state = JNum 1"
  by (simp add: fetchProfiles_def getProp_def bearer_def scenario_state_def Let_def)

subsection \<open>The in-flight flag\<close>

text \<open>
  C4 says that an in-flight flag disables a duplicate submission while the request
  is outstanding. \<open>isLoading\<close> is set by \<open>handleCreateProfile\<close> and
  \<open>handleSetActiveProfile\<close> and read nowhere: with the flag up, as it is while an
  activation of profile B is outstanding, the page is the same page, both buttons of
  card B are enabled, and a second click runs the handler and sends the request again.
  \<open>deleteProfile\<close> sets no flag: the state it leaves while its request is outstanding
  is the state before the click.
\<close>

theorem in_flight_flag_does_not_gate:
  "handleSetActiveProfile_pending scenario_state = scenario_state\<lparr>isLoading := True\<rparr> \<and>
   Profiles (scenario_state\<lparr>isLoading := True\<rparr>) = Profiles scenario_state \<and>
   map card_actions (page_cards (Profiles (scenario_state\<lparr>isLoading := True\<rparr>))) =
     [[HandleSetActiveProfile (JNum 1)], [HandleSetActiveProfile (JNum 2), DeleteProfile (JNum 2)]] \<and>
   map disabled (map card_activate (page_cards (Profiles (scenario_state\<lparr>isLoading := True\<rparr>)))) =
     [False, False] \<and>
   snd (handleSetActiveProfile (JNum 2)
          (Inr \<lparr>status = 200, body = Some (JObj [(''token'', JStr ''tok'')])\<rparr>)
          (scenario_state\<lparr>isLoading := True\<rparr>)) =
     [Fetch POST ApiProfilesSetActive jsonHeaders (Some (JObj [(''profileId'', JNum 2)])),
      SetClientSession (JStr ''tok''),
      LocalStorageSetItem ''activeProfile'' profileB,
      ToastSuccess ''Active profile updated successfully'', RouterPush ''/'', RouterRefresh] \<and>
   deleteProfile_pending scenario_state = scenario_state \<and>
   snd (deleteProfile (JNum 2) (Inl Rejected) None (Inl Rejected) (deleteProfile_pending scenario_state)) =
     [Fetch DELETE (ApiProfilesId (JNum 2)) [] None, ConsoleError ''Error deleting profile:'' Rejected]"
  by (simp add: handleSetActiveProfile_def handleSetActiveProfile_pending_def
      deleteProfile_def deleteProfile_pending_def deleteCaught_def profiles_find_def getProp_def
      strict_eq_def ok_def scenario_state_def Profiles_def render_grid_def render_card_def
      page_cards_def card_actions_def onClick_def disabled_def profileA_def profileB_def Let_def)

subsection \<open>A failed activation\<close>

text \<open>
  C5 says that a failed activation request is logged and surfaced as a toast. That
  holds for a rejected request only: for a response that is not \<open>ok\<close> the \<open>if\<close> of
  \<open>handleSetActiveProfile\<close> has no \<open>else\<close>, so a 500 response gives no log entry and no
  toast; the state is what it was.
\<close>

theorem handleSetActiveProfile_rejected_response_silent:
  "handleSetActiveProfile (JNum 2)
     (Inr \<lparr>status = 500, body = Some (JObj [(''error'', JStr ''Failed to set active profile'')])\<rparr>)
     scenario_state =
     (scenario_state,
      [Fetch POST ApiProfilesSetActive jsonHeaders (Some (JObj [(''profileId'', JNum 2)]))])"
  by (simp add: handleSetActiveProfile_def handleSetActiveProfile_pending_def ok_def
      scenario_state_def Let_def)

subsection \<open>Deletion\<close>

text \<open>
  C6 says that the error message of a failed DELETE is captured and displayed. It is
  captured in \<open>error\<close> and the list is not fetched again, but no toast is shown and
  the page does not read \<open>error\<close>: the view is the one before the failure.
\<close>

theorem deleteProfile_error_not_displayed:
  "deleteProfile (JNum 2)
     (Inr \<lparr>status = 500, body = Some (JObj [(''error'', JStr ''Cannot delete profile'')])\<rparr>)
     None (Inl Rejected) scenario_state =
     (scenario_state\<lparr>error := JStr ''Cannot delete profile''\<rparr>,
      [Fetch DELETE (ApiProfilesId (JNum 2)) [] None]) \<and>
   Profiles (scenario_state\<lparr>error := JStr ''Cannot delete profile''\<rparr>) = Profiles scenario_state"
  by (simp add: deleteProfile_def deleteProfile_pending_def ok_def getProp_def or_else_def
      Profiles_def Let_def split: sum.splits)

subsection \<open>The profile cards\<close>

lemma render_cards_nth:
  "render_cards ps = Inr cs \<Longrightarrow>
     length cs = length ps \<and> (\<forall>i<length ps. render_card (ps ! i) = Inr (cs ! i))"
proof (induction ps arbitrary: cs)
  case Nil
  then show ?case by simp
next
  case (Cons p ps)
  from Cons.prems obtain c cs' where c: "render_card p = Inr c"
    and cs': "render_cards ps = Inr cs'" and cs: "cs = c # cs'"
    by (auto split: sum.splits)
  from Cons.IH [OF cs'] have len: "length cs' = length ps"
    and nth: "\<forall>i<length ps. render_card (ps ! i) = Inr (cs' ! i)"
    by simp_all
  show ?case
  proof (intro conjI allI impI)
    show "length cs = length (p # ps)" using len cs by simp
  next
    fix i assume "i < length (p # ps)"
    then show "render_card ((p # ps) ! i) = Inr (cs ! i)"
      using c nth cs by (cases i) simp_all
  qed
qed

lemma render_page_cards:
  assumes "Profiles s = Inr (Page pg)"
  shows "render_cards (profile_list (profiles s)) = Inr (cards pg)"
proof -
  from assms obtain cs where g: "render_grid (profiles s) = Inr cs" and pg: "cards pg = cs"
    by (auto simp: Profiles_def split: if_splits sum.splits)
  from g have "render_cards (profile_list (profiles s)) = Inr cs"
    by (auto simp: render_grid_def profile_list_def split: if_splits jsval.splits)
  with pg show ?thesis by simp
qed

lemma render_card_activate:
  "render_card p = Inr c \<Longrightarrow>
     label (card_activate c) = (if truthy (get p ''isActive'') then ''Active'' else ''Set Active'') \<and>
     \<not> disabled (card_activate c) \<and>
     onClick (card_activate c) = Some (HandleSetActiveProfile (get p ''id''))"
  by (auto simp: render_card_def disabled_def onClick_def split: if_splits)

lemma render_card_delete:
  "render_card p = Inr c \<Longrightarrow>
     card_delete c =
       (if truthy (get p ''isActive'') then None
        else Some \<lparr>props = [(''onClick'', PHandler (DeleteProfile (get p ''id''))),
                            (''variant'', PText ''destructive''), (''size'', PText ''icon'')],
                   label = ''Trash2''\<rparr>)"
  by (auto simp: render_card_def split: if_splits)

lemma render_scenario_state:
  "\<exists>pg. Profiles scenario_state = Inr (Page pg)"
  by (simp add: Profiles_def render_grid_def render_card_def scenario_state_def profileA_def
      profileB_def)

lemma profile_list_scenario_state:
  "profile_list (profiles scenario_state) = [profileA, profileB]"
  by (simp add: profile_list_def scenario_state_def)

text \<open>
  C7, as stated, says that the card of the active profile renders a disabled
  \<open>Active\<close> button. In the scenario of the specification the first card is labelled
  \<open>Active\<close>, is not disabled and still calls \<open>handleSetActiveProfile\<close>.
\<close>

theorem active_button_not_disabled_counterexample:
  "map label (map card_activate (page_cards (Profiles scenario_state))) = [''Active'', ''Set Active''] \<and>
   map disabled (map card_activate (page_cards (Profiles scenario_state))) = [False, False] \<and>
   map card_actions (page_cards (Profiles scenario_state)) =
     [[HandleSetActiveProfile (JNum 1)], [HandleSetActiveProfile (JNum 2), DeleteProfile (JNum 2)]]"
  by (simp add: scenario_state_def Profiles_def render_grid_def render_card_def page_cards_def
      card_actions_def onClick_def disabled_def profileA_def profileB_def)

text \<open>
  C7, amended. The page renders one card for each profile of the list, in order; a
  card is labelled \<open>Active\<close> when its profile's \<open>isActive\<close> is true and \<open>Set Active\<close>
  otherwise; neither button is disabled and both call \<open>handleSetActiveProfile\<close> with
  the profile's id. So at most one card is labelled \<open>Active\<close> when at most one profile
  of the list is active.
\<close>

theorem cards_active_labels:
  assumes "Profiles s = Inr (Page pg)"
  shows "length (cards pg) = length (profile_list (profiles s)) \<and>
         (\<forall>i<length (cards pg).
            label (card_activate (cards pg ! i)) =
              (if truthy (get (profile_list (profiles s) ! i) ''isActive'') then ''Active''
               else ''Set Active'') \<and>
            \<not> disabled (card_activate (cards pg ! i)) \<and>
            onClick (card_activate (cards pg ! i)) =
              Some (HandleSetActiveProfile (get (profile_list (profiles s) ! i) ''id''))) \<and>
         (length (filter truthy (map (\<lambda>p. get p ''isActive'') (profile_list (profiles s)))) \<le> 1 \<longrightarrow>
            length (filter (\<lambda>c. label (card_activate c) = ''Active'') (cards pg)) \<le> 1)"
proof -
  let ?ps = "profile_list (profiles s)"
  from render_cards_nth [OF render_page_cards [OF assms]]
  have len: "length (cards pg) = length ?ps"
    and nth: "\<forall>i<length ?ps. render_card (?ps ! i) = Inr (cards pg ! i)"
    by simp_all
  have each: "\<forall>i<length (cards pg).
            label (card_activate (cards pg ! i)) =
              (if truthy (get (?ps ! i) ''isActive'') then ''Active'' else ''Set Active'') \<and>
            \<not> disabled (card_activate (cards pg ! i)) \<and>
            onClick (card_activate (cards pg ! i)) = Some (HandleSetActiveProfile (get (?ps ! i) ''id''))"
    using nth len render_card_activate by auto
  have lab: "map (\<lambda>c. label (card_activate c) = ''Active'') (cards pg) =
             map (\<lambda>p. truthy (get p ''isActive'')) ?ps"
    using each len by (auto simp: list_eq_iff_nth_eq)
  have "length (filter (\<lambda>c. label (card_activate c) = ''Active'') (cards pg)) =
        length (filter id (map (\<lambda>c. label (card_activate c) = ''Active'') (cards pg)))"
    by (simp add: filter_map comp_def)
  also have "\<dots> = length (filter id (map (\<lambda>p. truthy (get p ''isActive'')) ?ps))"
    by (simp only: lab)
  also have "\<dots> = length (filter truthy (map (\<lambda>p. get p ''isActive'') ?ps))"
    by (simp add: filter_map comp_def)
  finally have cnt: "length (filter (\<lambda>c. label (card_activate c) = ''Active'') (cards pg)) =
        length (filter truthy (map (\<lambda>p. get p ''isActive'') ?ps))" .
  show ?thesis using len each cnt by simp
qed

text \<open>The two cards of the scenario: one \<open>Active\<close>, one \<open>Set Active\<close>, both enabled.\<close>

theorem cards_active_labels_witness:
  "(\<exists>pg. Profiles scenario_state = Inr (Page pg)) \<and>
   length (filter truthy (map (\<lambda>p. get p ''isActive'') [profileA, profileB])) \<le> 1 \<and>
   length (page_cards (Profiles scenario_state)) = 2 \<and>
   label (card_activate (page_cards (Profiles scenario_state) ! 0)) = ''Active'' \<and>
   \<not> disabled (card_activate (page_cards (Profiles scenario_state) ! 0)) \<and>
   onClick (card_activate (page_cards (Profiles scenario_state) ! 0)) =
     Some (HandleSetActiveProfile (JNum 1)) \<and>
   label (card_activate (page_cards (Profiles scenario_state) ! 1)) = ''Set Active'' \<and>
   \<not> disabled (card_activate (page_cards (Profiles scenario_state) ! 1)) \<and>
   length (filter (\<lambda>c. label (card_activate c) = ''Active'') (page_cards (Profiles scenario_state))) \<le> 1"
proof -
  obtain pg where r: "Profiles scenario_state = Inr (Page pg)"
    using render_scenario_state by blast
  have pc: "page_cards (Profiles scenario_state) = cards pg"
    by (simp add: r page_cards_def)
  have cnt: "length (filter truthy (map (\<lambda>p. get p ''isActive'') [profileA, profileB])) \<le> 1"
    by (simp add: profileA_def profileB_def)
  from cards_active_labels [OF r]
  have len: "length (cards pg) = 2"
    and each: "\<forall>i<length (cards pg).
            label (card_activate (cards pg ! i)) =
              (if truthy (get ([profileA, profileB] ! i) ''isActive'') then ''Active''
               else ''Set Active'') \<and>
            \<not> disabled (card_activate (cards pg ! i)) \<and>
            onClick (card_activate (cards pg ! i)) =
              Some (HandleSetActiveProfile (get ([profileA, profileB] ! i) ''id''))"
    and one: "length (filter (\<lambda>c. label (card_activate c) = ''Active'') (cards pg)) \<le> 1"
    using cnt by (simp_all add: profile_list_scenario_state)
  from each len have c0: "label (card_activate (cards pg ! 0)) = ''Active'' \<and>
      \<not> disabled (card_activate (cards pg ! 0)) \<and>
      onClick (card_activate (cards pg ! 0)) = Some (HandleSetActiveProfile (JNum 1))"
    by (simp add: profileA_def)
  have "(1::nat) < length (cards pg)" using len by simp
  with each have "label (card_activate (cards pg ! 1)) =
              (if truthy (get ([profileA, profileB] ! 1) ''isActive'') then ''Active''
               else ''Set Active'') \<and>
            \<not> disabled (card_activate (cards pg ! 1))"
    by blast
  then have c1: "label (card_activate (cards pg ! 1)) = ''Set Active'' \<and>
      \<not> disabled (card_activate (cards pg ! 1))"
    by (simp add: profileB_def)
  show ?thesis using r pc cnt len c0 c1 one by simp
qed

text \<open>
  C8. The card of a profile whose \<open>isActive\<close> is true has no delete control, and none
  of its handlers is \<open>deleteProfile\<close>; the card of every other profile has an enabled
  delete control that calls \<open>deleteProfile\<close> with that profile's id.
\<close>

theorem delete_control_only_on_inactive:
  assumes "Profiles s = Inr (Page pg)"
  shows "length (cards pg) = length (profile_list (profiles s)) \<and>
         (\<forall>i<length (cards pg).
            (truthy (get (profile_list (profiles s) ! i) ''isActive'') \<longrightarrow>
               card_delete (cards pg ! i) = None \<and>
               (\<forall>x. DeleteProfile x \<notin> set (card_actions (cards pg ! i)))) \<and>
            (\<not> truthy (get (profile_list (profiles s) ! i) ''isActive'') \<longrightarrow>
               (\<exists>b. card_delete (cards pg ! i) = Some b \<and> \<not> disabled b \<and>
                    onClick b = Some (DeleteProfile (get (profile_list (profiles s) ! i) ''id'')))))"
proof -
  let ?ps = "profile_list (profiles s)"
  from render_cards_nth [OF render_page_cards [OF assms]]
  have len: "length (cards pg) = length ?ps"
    and nth: "\<forall>i<length ?ps. render_card (?ps ! i) = Inr (cards pg ! i)"
    by simp_all
  have "\<forall>i<length (cards pg).
            (truthy (get (?ps ! i) ''isActive'') \<longrightarrow>
               card_delete (cards pg ! i) = None \<and>
               (\<forall>x. DeleteProfile x \<notin> set (card_actions (cards pg ! i)))) \<and>
            (\<not> truthy (get (?ps ! i) ''isActive'') \<longrightarrow>
               (\<exists>b. card_delete (cards pg ! i) = Some b \<and> \<not> disabled b \<and>
                    onClick b = Some (DeleteProfile (get (?ps ! i) ''id''))))"
  proof (intro allI impI)
    fix i assume i: "i < length (cards pg)"
    with nth len have rc: "render_card (?ps ! i) = Inr (cards pg ! i)" by simp
    from render_card_delete [OF rc] render_card_activate [OF rc]
    show "(truthy (get (?ps ! i) ''isActive'') \<longrightarrow>
               card_delete (cards pg ! i) = None \<and>
               (\<forall>x. DeleteProfile x \<notin> set (card_actions (cards pg ! i)))) \<and>
            (\<not> truthy (get (?ps ! i) ''isActive'') \<longrightarrow>
               (\<exists>b. card_delete (cards pg ! i) = Some b \<and> \<not> disabled b \<and>
                    onClick b = Some (DeleteProfile (get (?ps ! i) ''id''))))"
      by (auto simp: card_actions_def onClick_def disabled_def)
  qed
  with len show ?thesis by simp
qed

text \<open>Card A of the scenario has no delete control, card B deletes profile 2.\<close>

theorem delete_control_only_on_inactive_witness:
  "(\<exists>pg. Profiles scenario_state = Inr (Page pg)) \<and>
   length (page_cards (Profiles scenario_state)) = 2 \<and>
   truthy (get profileA ''isActive'') \<and>
   card_delete (page_cards (Profiles scenario_state) ! 0) = None \<and>
   DeleteProfile (JNum 1) \<notin> set (card_actions (page_cards (Profiles scenario_state) ! 0)) \<and>
   \<not> truthy (get profileB ''isActive'') \<and>
   (\<exists>b. card_delete (page_cards (Profiles scenario_state) ! 1) = Some b \<and> \<not> disabled b \<and>
        onClick b = Some (DeleteProfile (JNum 2)))"
proof -
  obtain pg where r: "Profiles scenario_state = Inr (Page pg)"
    using render_scenario_state by blast
  have pc: "page_cards (Profiles scenario_state) = cards pg"
    by (simp add: r page_cards_def)
  have a: "truthy (get profileA ''isActive'')" and b: "\<not> truthy (get profileB ''isActive'')"
    and idB: "get profileB ''id'' = JNum 2"
    by (simp_all add: profileA_def profileB_def)
  from delete_control_only_on_inactive [OF r]
  have len: "length (cards pg) = 2"
    and each: "\<forall>i<length (cards pg).
            (truthy (get ([profileA, profileB] ! i) ''isActive'') \<longrightarrow>
               card_delete (cards pg ! i) = None \<and>
               (\<forall>x. DeleteProfile x \<notin> set (card_actions (cards pg ! i)))) \<and>
            (\<not> truthy (get ([profileA, profileB] ! i) ''isActive'') \<longrightarrow>
               (\<exists>b. card_delete (cards pg ! i) = Some b \<and> \<not> disabled b \<and>
                    onClick b = Some (DeleteProfile (get ([profileA, profileB] ! i) ''id''))))"
    by (simp_all add: profile_list_scenario_state)
  have "(0::nat) < length (cards pg)" using len by simp
  with each a have c0: "card_delete (cards pg ! 0) = None \<and>
      DeleteProfile (JNum 1) \<notin> set (card_actions (cards pg ! 0))"
    by fastforce
  have "(1::nat) < length (cards pg)" using len by simp
  with each have "\<not> truthy (get ([profileA, profileB] ! 1) ''isActive'') \<longrightarrow>
               (\<exists>b. card_delete (cards pg ! 1) = Some b \<and> \<not> disabled b \<and>
                    onClick b = Some (DeleteProfile (get ([profileA, profileB] ! 1) ''id'')))"
    by blast
  with b idB have c1: "\<exists>b. card_delete (cards pg ! 1) = Some b \<and> \<not> disabled b \<and>
        onClick b = Some (DeleteProfile (JNum 2))"
    by simp
  show ?thesis using r pc len a b c0 c1 by simp
qed

subsection \<open>Activation and the cached profile\<close>


lemma find_profile_found:
  "\<forall>p\<in>set ps. \<not> nullish p \<Longrightarrow> \<exists>q\<in>set ps. strict_eq (get q ''id'') pid \<Longrightarrow>
     \<exists>p\<in>set ps. find_profile ps pid = Inr p \<and> strict_eq (get p ''id'') pid"
proof (induction ps)
  case Nil
  then show ?case by simp
next
  case (Cons p ps)
  show ?case
  proof (cases "strict_eq (get p ''id'') pid")
    case True
    with Cons.prems(1) show ?thesis by (simp add: getProp_def)
  next
    case False
    with Cons.prems have "\<exists>q\<in>set ps. strict_eq (get q ''id'') pid" by auto
    with Cons.IH Cons.prems(1) obtain p' where "p' \<in> set ps" "find_profile ps pid = Inr p'"
      "strict_eq (get p' ''id'') pid" by auto
    with False Cons.prems(1) show ?thesis by (auto simp: getProp_def)
  qed
qed

lemma find_profile_total:
  "\<forall>p\<in>set ps. \<not> nullish p \<Longrightarrow> \<exists>v. find_profile ps pid = Inr v"
  by (induction ps) (auto simp: getProp_def)


lemma activation_success_run:
  assumes "ok r" and "body r = Some data" and "\<not> nullish data"
    and "profiles s = JArr ps" and "find_profile ps pid = Inr found"
  shows "handleSetActiveProfile pid (Inr r) s =
           (s\<lparr>isLoading := False, activeProfileId := pid\<rparr>,
            [Fetch POST ApiProfilesSetActive jsonHeaders (Some (JObj [(''profileId'', pid)]))] @
            (if truthy (get data ''token'') then [SetClientSession (get data ''token'')] else []) @
            (if truthy found then [LocalStorageSetItem ''activeProfile'' found] else []) @
            [ToastSuccess ''Active profile updated successfully'', RouterPush ''/'', RouterRefresh])"
  using assms
  by (simp add: handleSetActiveProfile_def handleSetActiveProfile_pending_def profiles_find_def
      getProp_def Let_def)

text \<open>
  A successful activation with a truthy \<open>token\<close>, for any requested identifier: the
  session and \<open>activeProfileId\<close> are set; on a list of truthy values the success toast
  and the navigation follow, and the profile \<open>find\<close> returns is stored when the list
  has one with that identifier.
\<close>

lemma activation_with_token:
  assumes "ok r" and "body r = Some data" and "truthy (get data ''token'')"
  shows "SetClientSession (get data ''token'') \<in> set (snd (handleSetActiveProfile pid (Inr r) s)) \<and>
         activeProfileId (fst (handleSetActiveProfile pid (Inr r) s)) = pid \<and>
         (profiles s = JArr ps \<and> (\<forall>p\<in>set ps. truthy p) \<longrightarrow>
            ToastSuccess ''Active profile updated successfully''
              \<in> set (snd (handleSetActiveProfile pid (Inr r) s)) \<and>
            RouterPush ''/'' \<in> set (snd (handleSetActiveProfile pid (Inr r) s)) \<and>
            ((\<exists>q\<in>set ps. strict_eq (get q ''id'') pid) \<longrightarrow>
               (\<exists>p\<in>set ps. strict_eq (get p ''id'') pid \<and>
                  LocalStorageSetItem ''activeProfile'' p
                    \<in> set (snd (handleSetActiveProfile pid (Inr r) s)))))"
proof (intro conjI impI)
  from assms(3) have nn: "\<not> nullish data" by (cases data) simp_all
  show "SetClientSession (get data ''token'') \<in> set (snd (handleSetActiveProfile pid (Inr r) s))"
    using assms nn
    by (simp add: handleSetActiveProfile_def getProp_def Let_def split: sum.splits)
  show "activeProfileId (fst (handleSetActiveProfile pid (Inr r) s)) = pid"
    using assms nn
    by (simp add: handleSetActiveProfile_def getProp_def Let_def split: sum.splits)
  assume list: "profiles s = JArr ps \<and> (\<forall>p\<in>set ps. truthy p)"
  have nonnull: "\<forall>p\<in>set ps. \<not> nullish p"
  proof
    fix p assume "p \<in> set ps"
    with list have "truthy p" by simp
    then show "\<not> nullish p" by (cases p) simp_all
  qed
  from find_profile_total [OF nonnull] obtain found where f: "find_profile ps pid = Inr found"
    by blast
  from list have arr: "profiles s = JArr ps" by simp
  note e = activation_success_run [OF assms(1,2) nn arr f]
  show "ToastSuccess ''Active profile updated successfully''
          \<in> set (snd (handleSetActiveProfile pid (Inr r) s))"
    by (simp add: e)
  show "RouterPush ''/'' \<in> set (snd (handleSetActiveProfile pid (Inr r) s))"
    by (simp add: e)
  assume "\<exists>q\<in>set ps. strict_eq (get q ''id'') pid"
  from find_profile_found [OF nonnull this] obtain p where p: "p \<in> set ps"
    "find_profile ps pid = Inr p" "strict_eq (get p ''id'') pid" by blast
  from p(1) list have tp: "truthy p" by simp
  from p(2) f have "found = p" by simp
  with e tp have "LocalStorageSetItem ''activeProfile'' p
      \<in> set (snd (handleSetActiveProfile pid (Inr r) s))"
    by simp
  with p(1,3) show "\<exists>p\<in>set ps. strict_eq (get p ''id'') pid \<and>
      LocalStorageSetItem ''activeProfile'' p \<in> set (snd (handleSetActiveProfile pid (Inr r) s))"
    by blast
qed

text \<open>
  C9. \<open>handleSetActiveProfile\<close> is called from one place, the \<open>onClick\<close> of a card's
  button, with the \<open>id\<close> of a profile of the list the handler searches. For every such
  click on a page whose list holds profile objects (truthy values), when the
  activation request succeeds with a body whose \<open>token\<close> is truthy: the client session
  is set to that token, \<open>activeProfileId\<close> becomes the requested identifier, a profile
  of the list with that identifier is stored under \<open>activeProfile\<close>, the success toast
  is shown and the router goes to \<open>/\<close>.
\<close>

theorem activation_from_card_with_token:
  assumes page: "Profiles s = Inr (Page pg)"
    and i: "i < length (cards pg)"
    and click: "onClick (card_activate (cards pg ! i)) = Some (HandleSetActiveProfile pid)"
    and objs: "\<forall>p\<in>set (profile_list (profiles s)). truthy p"
    and resp: "ok r" "body r = Some data" "truthy (get data ''token'')"
  shows "SetClientSession (get data ''token'') \<in> set (snd (handleSetActiveProfile pid (Inr r) s)) \<and>
         activeProfileId (fst (handleSetActiveProfile pid (Inr r) s)) = pid \<and>
         (\<exists>p\<in>set (profile_list (profiles s)). strict_eq (get p ''id'') pid \<and>
            LocalStorageSetItem ''activeProfile'' p
              \<in> set (snd (handleSetActiveProfile pid (Inr r) s))) \<and>
         ToastSuccess ''Active profile updated successfully''
           \<in> set (snd (handleSetActiveProfile pid (Inr r) s)) \<and>
         RouterPush ''/'' \<in> set (snd (handleSetActiveProfile pid (Inr r) s))"
proof -
  let ?ps = "profile_list (profiles s)"
  from render_cards_nth [OF render_page_cards [OF page]]
  have len: "length (cards pg) = length ?ps"
    and nth: "\<forall>j<length ?ps. render_card (?ps ! j) = Inr (cards pg ! j)"
    by simp_all
  from i len nth have rc: "render_card (?ps ! i) = Inr (cards pg ! i)" by simp
  from render_card_activate [OF rc] click have pid: "pid = get (?ps ! i) ''id''" by simp
  from i len have mem: "?ps ! i \<in> set ?ps" by simp
  from mem pid have ex: "\<exists>q\<in>set ?ps. strict_eq (get q ''id'') pid"
    by (auto simp: strict_eq_def)
  from mem have "?ps \<noteq> []" by auto
  then have arr: "profiles s = JArr ?ps"
    by (cases "profiles s") (simp_all add: profile_list_def)
  from activation_with_token [OF resp, of pid s ?ps] arr objs ex
  show ?thesis by blast
qed

text \<open>The click on \<open>Set Active\<close> of card B in the scenario.\<close>

theorem activation_from_card_with_token_witness:
  "(\<exists>pg. Profiles scenario_state = Inr (Page pg)) \<and>
   1 < length (page_cards (Profiles scenario_state)) \<and>
   onClick (card_activate (page_cards (Profiles scenario_state) ! 1)) =
     Some (HandleSetActiveProfile (JNum 2)) \<and>
   truthy profileA \<and> truthy profileB \<and>
   ok \<lparr>status = 200, body = Some (JObj [(''token'', JStr ''tok'')])\<rparr> \<and>
   truthy (get (JObj [(''token'', JStr ''tok'')]) ''token'') \<and>
   SetClientSession (JStr ''tok'')
     \<in> set (snd (handleSetActiveProfile (JNum 2)
          (Inr \<lparr>status = 200, body = Some (JObj [(''token'', JStr ''tok'')])\<rparr>) scenario_state)) \<and>
   activeProfileId (fst (handleSetActiveProfile (JNum 2)
          (Inr \<lparr>status = 200, body = Some (JObj [(''token'', JStr ''tok'')])\<rparr>) scenario_state)) = JNum 2 \<and>
   (\<exists>p\<in>set [profileA, profileB]. strict_eq (get p ''id'') (JNum 2) \<and>
      LocalStorageSetItem ''activeProfile'' p
        \<in> set (snd (handleSetActiveProfile (JNum 2)
             (Inr \<lparr>status = 200, body = Some (JObj [(''token'', JStr ''tok'')])\<rparr>) scenario_state))) \<and>
   ToastSuccess ''Active profile updated successfully''
     \<in> set (snd (handleSetActiveProfile (JNum 2)
          (Inr \<lparr>status = 200, body = Some (JObj [(''token'', JStr ''tok'')])\<rparr>) scenario_state)) \<and>
   RouterPush ''/''
     \<in> set (snd (handleSetActiveProfile (JNum 2)
          (Inr \<lparr>status = 200, body = Some (JObj [(''token'', JStr ''tok'')])\<rparr>) scenario_state))"
proof -
  let ?r = "\<lparr>status = 200, body = Some (JObj [(''token'', JStr ''tok'')])\<rparr>"
  obtain pg where page: "Profiles scenario_state = Inr (Page pg)"
    using render_scenario_state by blast
  have pc: "page_cards (Profiles scenario_state) = cards pg"
    by (simp add: page page_cards_def)
  have cs: "map (\<lambda>c. onClick (card_activate c)) (page_cards (Profiles scenario_state)) =
      [Some (HandleSetActiveProfile (JNum 1)), Some (HandleSetActiveProfile (JNum 2))]"
    by (simp add: scenario_state_def Profiles_def render_grid_def render_card_def page_cards_def
        onClick_def profileA_def profileB_def)
  from cs have len: "length (cards pg) = 2" unfolding pc by (auto dest: arg_cong [where f = length])
  then have i: "1 < length (cards pg)" by simp
  from cs i have click: "onClick (card_activate (cards pg ! 1)) = Some (HandleSetActiveProfile (JNum 2))"
    unfolding pc by (auto dest: arg_cong [where f = "\<lambda>xs. xs ! 1"])
  have tr: "truthy profileA \<and> truthy profileB"
    by (simp add: profileA_def profileB_def)
  then have objs: "\<forall>p\<in>set (profile_list (profiles scenario_state)). truthy p"
    by (simp add: profile_list_scenario_state)
  have h1: "ok ?r" by (simp add: ok_def)
  have h2: "body ?r = Some (JObj [(''token'', JStr ''tok'')])" by simp
  have h3: "truthy (get (JObj [(''token'', JStr ''tok'')]) ''token'')" by simp
  have g: "get (JObj [(''token'', JStr ''tok'')]) ''token'' = JStr ''tok''" by simp
  from activation_from_card_with_token [OF page i click objs h1 h2 h3]
  have "SetClientSession (JStr ''tok'') \<in> set (snd (handleSetActiveProfile (JNum 2) (Inr ?r) scenario_state)) \<and>
         activeProfileId (fst (handleSetActiveProfile (JNum 2) (Inr ?r) scenario_state)) = JNum 2 \<and>
         (\<exists>p\<in>set [profileA, profileB]. strict_eq (get p ''id'') (JNum 2) \<and>
            LocalStorageSetItem ''activeProfile'' p
              \<in> set (snd (handleSetActiveProfile (JNum 2) (Inr ?r) scenario_state))) \<and>
         ToastSuccess ''Active profile updated successfully''
           \<in> set (snd (handleSetActiveProfile (JNum 2) (Inr ?r) scenario_state)) \<and>
         RouterPush ''/'' \<in> set (snd (handleSetActiveProfile (JNum 2) (Inr ?r) scenario_state))"
    unfolding g profile_list_scenario_state .
  with page i click tr h1 h3 show ?thesis unfolding pc by blast
qed



end
